theory Spec2Isabelle
  imports
    Main
    "HOL-Library.Char_ord"
    "HOL-Library.List_Lexorder"
    "HOL-Library.Product_Lexorder"
begin

section \<open>The chat server of \<^verbatim>\<open>src/chat-server.js\<close>\<close>

text \<open>
  The server keeps two in-memory tables, \<^verbatim>\<open>activeUsers\<close> and \<^verbatim>\<open>userRooms\<close>, both
  JavaScript \<^verbatim>\<open>Map\<close>s keyed by the socket id, and talks to two collections of a document
  store, \<^verbatim>\<open>chatMessages\<close> and \<^verbatim>\<open>chatPresence\<close>. Each socket event handler is embedded as a
  function from the state before the event to the state after it, together with the list
  of calls it made in the order it made them (store calls, emissions on the socket,
  broadcasts, console lines).

  What a handler cannot know beforehand is an argument of its embedding: the clock
  readings, the random suffix of the message id, and the answer of the store to each
  awaited call. An awaited call either resolves or rejects; \<open>Rejected\<close> stands for every
  reason the call throws (the store is unreachable, or it refuses the arguments).

  A handler runs from its first statement to its last as one step. The two tables are
  only ever written together, in one synchronous block (\<^verbatim>\<open>user:join\<close> before its
  \<^verbatim>\<open>await\<close>, \<^verbatim>\<open>disconnect\<close> after its \<^verbatim>\<open>await\<close>).
\<close>

subsection \<open>JavaScript \<^verbatim>\<open>Map\<close> as an insertion-ordered association list\<close>

type_synonym ('k, 'v) js_map = "('k \<times> 'v) list"

text \<open>\<^verbatim>\<open>Map.prototype.set\<close>: an existing key keeps its position, a new key goes last.\<close>

primrec map_set :: "'k \<Rightarrow> 'v \<Rightarrow> ('k, 'v) js_map \<Rightarrow> ('k, 'v) js_map" where
  "map_set k v [] = [(k, v)]"
| "map_set k v (p # ps) = (if fst p = k then (k, v) # ps else p # map_set k v ps)"

primrec map_get :: "('k, 'v) js_map \<Rightarrow> 'k \<Rightarrow> 'v option" where
  "map_get [] k = None"
| "map_get (p # ps) k = (if fst p = k then Some (snd p) else map_get ps k)"

primrec map_delete :: "'k \<Rightarrow> ('k, 'v) js_map \<Rightarrow> ('k, 'v) js_map" where
  "map_delete k [] = []"
| "map_delete k (p # ps) = (if fst p = k then map_delete k ps else p # map_delete k ps)"

definition map_values :: "('k, 'v) js_map \<Rightarrow> 'v list" where
  "map_values m = map snd m"

definition map_keys :: "('k, 'v) js_map \<Rightarrow> 'k list" where
  "map_keys m = map fst m"

subsection \<open>Data\<close>

type_synonym socket_id = string
type_synonym user_id = string
type_synonym room_id = string
type_synonym doc_id = string
type_synonym time = nat

text \<open>The payload of \<^verbatim>\<open>user:join\<close>, and the identity part of every later record.\<close>

record identity =
  userId :: user_id
  userName :: string
  userEmail :: string
  avatar :: string

text \<open>A value of \<^verbatim>\<open>activeUsers\<close>.\<close>

record session = identity +
  socketId :: socket_id
  joinedAt :: time

text \<open>
  The \<^verbatim>\<open>message\<close> object of \<^verbatim>\<open>message:send\<close>. The same shape serves the document stored
  in \<^verbatim>\<open>chatMessages\<close> (with \<open>createdAt\<close>, without \<open>firebaseId\<close>), the \<^verbatim>\<open>message:new\<close>
  payload (with \<open>firebaseId\<close>, without \<open>createdAt\<close>) and an entry of the
  \<^verbatim>\<open>messages:history\<close> payload (with both). The documents of \<^verbatim>\<open>chatMessages\<close> are the
  ones \<^verbatim>\<open>message:send\<close> writes, so every field it writes is present in them.
\<close>

record message = identity +
  msg_id :: string
  content :: string
  msg_type :: string
  timestamp :: time
  roomId :: room_id
  likes :: "user_id list"
  replies :: "string list"
  createdAt :: "time option"
  firebaseId :: "doc_id option"

text \<open>A document of \<^verbatim>\<open>chatPresence\<close>, keyed by the user id.\<close>

record presence =
  isOnline :: bool
  lastSeen :: time
  presence_socketId :: socket_id
  presence_userName :: string
  presence_userEmail :: string
  presence_avatar :: string

text \<open>The payloads of the incoming events; an optional field is absent as \<open>None\<close>.\<close>

record send_data =
  send_content :: string
  send_type :: "string option"
  send_roomId :: "room_id option"

record typing_data =
  typing_roomId :: "room_id option"

record like_data =
  like_messageId :: doc_id
  like_action :: string

record history_data =
  history_roomId :: "room_id option"
  history_limit :: "nat option"
  history_lastMessageId :: "doc_id option"

text \<open>The answer of the store to an awaited call.\<close>

datatype 'a promise = Rejected | Resolved 'a

record state =
  activeUsers :: "(socket_id, session) js_map"
  userRooms :: "(socket_id, room_id list) js_map"
  chatMessages :: "(doc_id, message) js_map"
  chatPresence :: "(user_id, presence) js_map"

definition init :: state where
  "init = \<lparr>activeUsers = [], userRooms = [], chatMessages = [], chatPresence = []\<rparr>"

subsection \<open>What a handler does, in order\<close>

datatype out_event =
    UserJoined identity string
  | UsersList "session list"
  | MessageNew message
  | TypingStart user_id string
  | TypingStop user_id string
  | MessageLiked doc_id "user_id list" user_id string
  | UserLeft user_id string string
  | MessagesHistory "message list"
  | Error string

datatype store_call =
    PresenceSet user_id
  | PresenceUpdate user_id
  | MessagesAdd message
  | MessagesGet doc_id
  | MessagesUpdate doc_id "user_id list"
  | MessagesQuery nat "doc_id option"

datatype console_line =
    ErrorJoin | ErrorSend | ErrorLike | ErrorDisconnect | ErrorHistory
  | LogJoined string user_id
  | LogSent string room_id
  | LogDisconnected string
  | LogHistory nat room_id

text \<open>
  \<open>Store c ok\<close>: the store call \<open>c\<close> was made and resolved (\<open>ok\<close>) or rejected.
  \<open>SocketEmit h e\<close> is \<^verbatim>\<open>socket.emit\<close>: to the connection \<open>h\<close> alone.
  \<open>SocketTo h r e\<close> is \<^verbatim>\<open>socket.to(r).emit\<close>: to the room \<open>r\<close> except \<open>h\<close>.
  \<open>IoTo r e\<close> is \<^verbatim>\<open>io.to(r).emit\<close>: to the whole room \<open>r\<close>.
\<close>

datatype effect =
    Store store_call bool
  | SocketJoin socket_id room_id
  | SocketEmit socket_id out_event
  | SocketTo socket_id room_id out_event
  | IoTo room_id out_event
  | Console console_line

definition public_hub :: room_id where
  "public_hub = ''public-hub''"

text \<open>\<^verbatim>\<open>x || 'public-hub'\<close>: the empty string is falsy, as an absent field is.\<close>

definition or_public_hub :: "room_id \<Rightarrow> room_id" where
  "or_public_hub r = (if r = [] then public_hub else r)"

subsection \<open>\<^verbatim>\<open>user:join\<close>\<close>

text \<open>
  \<open>userData = None\<close> is a payload that cannot be destructured (\<^verbatim>\<open>undefined\<close>, \<^verbatim>\<open>null\<close>):
  the \<^verbatim>\<open>try\<close> block throws at its first line. \<open>now\<close> is \<^verbatim>\<open>new Date()\<close>; the store answers
  the presence write with the server timestamp it stored, or rejects.
\<close>

definition in_public_hub :: "(socket_id, room_id list) js_map \<Rightarrow> session \<Rightarrow> bool" where
  "in_public_hub rooms user =
     (case map_get rooms (socketId user) of
        None \<Rightarrow> False
      | Some rs \<Rightarrow> public_hub \<in> set rs)"

definition user_join ::
  "socket_id \<Rightarrow> identity option \<Rightarrow> time \<Rightarrow> time promise \<Rightarrow> state \<Rightarrow> state \<times> effect list" where
  "user_join sid userData now presence_write s =
     (case userData of
        None \<Rightarrow> (s, [Console ErrorJoin, SocketEmit sid (Error ''Failed to join chat'')])
      | Some u \<Rightarrow>
          let s1 = s\<lparr>activeUsers :=
                       map_set sid
                         \<lparr>userId = userId u, userName = userName u, userEmail = userEmail u,
                          avatar = avatar u, socketId = sid, joinedAt = now\<rparr>
                         (activeUsers s),
                     userRooms := map_set sid [public_hub] (userRooms s)\<rparr>
          in (case presence_write of
                Rejected \<Rightarrow>
                  (s1, [SocketJoin sid public_hub,
                        Store (PresenceSet (userId u)) False,
                        Console ErrorJoin,
                        SocketEmit sid (Error ''Failed to join chat'')])
              | Resolved t \<Rightarrow>
                  let s2 = s1\<lparr>chatPresence :=
                                map_set (userId u)
                                  \<lparr>isOnline = True, lastSeen = t, presence_socketId = sid,
                                   presence_userName = userName u,
                                   presence_userEmail = userEmail u,
                                   presence_avatar = avatar u\<rparr>
                                  (chatPresence s1)\<rparr>;
                      roomUsers = filter (in_public_hub (userRooms s2))
                                    (map_values (activeUsers s2))
                  in (s2, [SocketJoin sid public_hub,
                           Store (PresenceSet (userId u)) True,
                           SocketTo sid public_hub
                             (UserJoined u (userName u @ '' joined the chat'')),
                           SocketEmit sid (UsersList roomUsers),
                           Console (LogJoined (userName u) (userId u))])))"

subsection \<open>\<^verbatim>\<open>message:send\<close>\<close>

text \<open>\<^verbatim>\<open>Date.now()\<close> printed in decimal, for the synthetic message id.\<close>

fun decimal :: "nat \<Rightarrow> string" where
  "decimal n =
     (if n < 10 then [char_of (48 + n)]
      else decimal (n div 10) @ [char_of (48 + n mod 10)])"

declare decimal.simps [simp del]

text \<open>
  The readings the handler takes: \<^verbatim>\<open>Date.now()\<close> and the random suffix for the id,
  \<^verbatim>\<open>new Date()\<close> for \<open>createdAt\<close> before the write, \<^verbatim>\<open>new Date()\<close> for the broadcast
  timestamp after it. Until the write, the \<open>timestamp\<close> of the local object is the
  sentinel \<^verbatim>\<open>serverTimestamp()\<close>, written \<open>0\<close> here; the stored document gets the time
  the store resolves it to.
\<close>

record send_env =
  date_now :: time
  random_suffix :: string
  created_now :: time
  broadcast_now :: time

text \<open>
  \<^verbatim>\<open>collection.add\<close> resolves with the identifier the store chose and (in the document)
  the server timestamp; it creates a new document, so an identifier already in use is a
  rejected write.
\<close>

definition add_outcome ::
  "(doc_id, message) js_map \<Rightarrow> (doc_id \<times> time) promise \<Rightarrow> (doc_id \<times> time) promise" where
  "add_outcome docs answer =
     (case answer of
        Rejected \<Rightarrow> Rejected
      | Resolved (d, t) \<Rightarrow> (if d \<in> set (map_keys docs) then Rejected else Resolved (d, t)))"

definition message_send ::
  "socket_id \<Rightarrow> send_data option \<Rightarrow> send_env \<Rightarrow> (doc_id \<times> time) promise \<Rightarrow> state
     \<Rightarrow> state \<times> effect list" where
  "message_send sid messageData env add_answer s =
     (case map_get (activeUsers s) sid of
        None \<Rightarrow> (s, [SocketEmit sid (Error ''User not authenticated'')])
      | Some user \<Rightarrow>
          (case messageData of
             None \<Rightarrow> (s, [Console ErrorSend, SocketEmit sid (Error ''Failed to send message'')])
           | Some md \<Rightarrow>
               let ty = (case send_type md of None \<Rightarrow> ''text'' | Some t \<Rightarrow> t);
                   room = (case send_roomId md of None \<Rightarrow> public_hub | Some r \<Rightarrow> r);
                   msg = \<lparr>userId = userId user, userName = userName user,
                          userEmail = userEmail user, avatar = avatar user,
                          msg_id = ''msg_'' @ decimal (date_now env) @ ''_'' @ random_suffix env,
                          content = send_content md, msg_type = ty,
                          timestamp = 0, roomId = room, likes = [], replies = [],
                          createdAt = None, firebaseId = None\<rparr>
               in (case add_outcome (chatMessages s) add_answer of
                     Rejected \<Rightarrow>
                       (s, [Store (MessagesAdd (msg\<lparr>createdAt := Some (created_now env)\<rparr>)) False,
                            Console ErrorSend,
                            SocketEmit sid (Error ''Failed to send message'')])
                   | Resolved (d, t) \<Rightarrow>
                       let doc = msg\<lparr>timestamp := t, createdAt := Some (created_now env)\<rparr>;
                           out = msg\<lparr>firebaseId := Some d, timestamp := broadcast_now env\<rparr>
                       in (s\<lparr>chatMessages := map_set d doc (chatMessages s)\<rparr>,
                           [Store (MessagesAdd doc) True,
                            IoTo room (MessageNew out),
                            Console (LogSent (userName user) room)]))))"

subsection \<open>\<^verbatim>\<open>typing:start\<close> and \<^verbatim>\<open>typing:stop\<close>\<close>

text \<open>
  These two handlers have no \<^verbatim>\<open>try\<close> block: with a session and a payload that has no
  fields to read (\<open>None\<close>), \<^verbatim>\<open>data.roomId\<close> throws out of the handler, and the result is
  \<open>None\<close>.
\<close>

definition typing_room :: "typing_data \<Rightarrow> room_id" where
  "typing_room d = (case typing_roomId d of None \<Rightarrow> public_hub | Some r \<Rightarrow> or_public_hub r)"

definition typing_start ::
  "socket_id \<Rightarrow> typing_data option \<Rightarrow> state \<Rightarrow> (state \<times> effect list) option" where
  "typing_start sid data s =
     (case map_get (activeUsers s) sid of
        None \<Rightarrow> Some (s, [])
      | Some user \<Rightarrow>
          (case data of
             None \<Rightarrow> None
           | Some d \<Rightarrow>
               Some (s, [SocketTo sid (typing_room d)
                           (TypingStart (userId user) (userName user))])))"

definition typing_stop ::
  "socket_id \<Rightarrow> typing_data option \<Rightarrow> state \<Rightarrow> (state \<times> effect list) option" where
  "typing_stop sid data s =
     (case map_get (activeUsers s) sid of
        None \<Rightarrow> Some (s, [])
      | Some user \<Rightarrow>
          (case data of
             None \<Rightarrow> None
           | Some d \<Rightarrow>
               Some (s, [SocketTo sid (typing_room d)
                           (TypingStop (userId user) (userName user))])))"

subsection \<open>\<^verbatim>\<open>message:like\<close>\<close>

text \<open>The mutation of the fetched \<^verbatim>\<open>likes\<close> array: \<^verbatim>\<open>push\<close>, \<^verbatim>\<open>filter\<close>, or nothing.\<close>

definition update_likes :: "string \<Rightarrow> user_id \<Rightarrow> user_id list \<Rightarrow> user_id list" where
  "update_likes action uid ls =
     (if action = ''like'' \<and> uid \<notin> set ls then ls @ [uid]
      else if action = ''unlike'' then filter (\<lambda>i. i \<noteq> uid) ls
      else ls)"

definition message_like ::
  "socket_id \<Rightarrow> like_data option \<Rightarrow> unit promise \<Rightarrow> unit promise \<Rightarrow> state
     \<Rightarrow> state \<times> effect list" where
  "message_like sid data get_answer update_answer s =
     (case map_get (activeUsers s) sid of
        None \<Rightarrow> (s, [])
      | Some user \<Rightarrow>
          (case data of
             None \<Rightarrow> (s, [Console ErrorLike])
           | Some d \<Rightarrow>
               let messageId = like_messageId d; action = like_action d
               in (case get_answer of
                     Rejected \<Rightarrow> (s, [Store (MessagesGet messageId) False, Console ErrorLike])
                   | Resolved _ \<Rightarrow>
                       (case map_get (chatMessages s) messageId of
                          None \<Rightarrow> (s, [Store (MessagesGet messageId) True])
                        | Some messageData \<Rightarrow>
                            let ls = update_likes action (userId user) (likes messageData)
                            in (case update_answer of
                                  Rejected \<Rightarrow>
                                    (s, [Store (MessagesGet messageId) True,
                                         Store (MessagesUpdate messageId ls) False,
                                         Console ErrorLike])
                                | Resolved _ \<Rightarrow>
                                    (s\<lparr>chatMessages :=
                                         map_set messageId (messageData\<lparr>likes := ls\<rparr>)
                                           (chatMessages s)\<rparr>,
                                     [Store (MessagesGet messageId) True,
                                      Store (MessagesUpdate messageId ls) True,
                                      IoTo (or_public_hub (roomId messageData))
                                        (MessageLiked messageId ls (userId user) action)]))))))"

subsection \<open>\<^verbatim>\<open>disconnect\<close>\<close>

text \<open>
  \<^verbatim>\<open>doc(userId).update\<close> changes two fields of an existing presence document; it rejects
  when there is none.
\<close>

definition presence_update_outcome ::
  "(user_id, presence) js_map \<Rightarrow> user_id \<Rightarrow> time promise \<Rightarrow> (presence \<times> time) promise" where
  "presence_update_outcome table uid answer =
     (case answer of
        Rejected \<Rightarrow> Rejected
      | Resolved t \<Rightarrow>
          (case map_get table uid of
             None \<Rightarrow> Rejected
           | Some p \<Rightarrow> Resolved (p, t)))"

definition disconnect :: "socket_id \<Rightarrow> time promise \<Rightarrow> state \<Rightarrow> state \<times> effect list" where
  "disconnect sid presence_write s =
     (case map_get (activeUsers s) sid of
        None \<Rightarrow> (s, [])
      | Some user \<Rightarrow>
          (case presence_update_outcome (chatPresence s) (userId user) presence_write of
             Rejected \<Rightarrow>
               (s, [Store (PresenceUpdate (userId user)) False, Console ErrorDisconnect])
           | Resolved (p, t) \<Rightarrow>
               let rooms = (case map_get (userRooms s) sid of None \<Rightarrow> [] | Some rs \<Rightarrow> rs)
               in (s\<lparr>chatPresence :=
                        map_set (userId user) (p\<lparr>isOnline := False, lastSeen := t\<rparr>)
                          (chatPresence s),
                      activeUsers := map_delete sid (activeUsers s),
                      userRooms := map_delete sid (userRooms s)\<rparr>,
                   [Store (PresenceUpdate (userId user)) True]
                   @ map (\<lambda>room. SocketTo sid room
                                    (UserLeft (userId user) (userName user)
                                       (userName user @ '' left the chat'')))
                       rooms
                   @ [Console (LogDisconnected (userName user))])))"

subsection \<open>\<^verbatim>\<open>messages:history\<close>\<close>

text \<open>
  \<^verbatim>\<open>orderBy('createdAt', 'desc')\<close>: the documents that have the field, newest first; two
  documents of one creation time are ordered by their identifiers, in the same
  direction. A scanned entry carries its sort key, the creation time and the identifier.
\<close>

type_synonym scan_entry = "(time \<times> doc_id) \<times> message"

definition dated :: "(doc_id, message) js_map \<Rightarrow> scan_entry list" where
  "dated docs =
     concat (map (\<lambda>(d, m). case createdAt m of None \<Rightarrow> [] | Some t \<Rightarrow> [((t, d), m)]) docs)"

definition chronological :: "(doc_id, message) js_map \<Rightarrow> scan_entry list" where
  "chronological docs = sort_key fst (dated docs)"

definition orderBy_createdAt_desc :: "(doc_id, message) js_map \<Rightarrow> scan_entry list" where
  "orderBy_createdAt_desc docs = rev (chronological docs)"

text \<open>\<^verbatim>\<open>startAfter(lastDoc)\<close>: only what the order puts strictly after \<open>lastDoc\<close>.\<close>

definition startAfter :: "(time \<times> doc_id) option \<Rightarrow> scan_entry list \<Rightarrow> scan_entry list" where
  "startAfter cursor es =
     (case cursor of None \<Rightarrow> es | Some k \<Rightarrow> filter (\<lambda>e. fst e < k) es)"

text \<open>
  An entry of the payload: the document's data, \<open>firebaseId\<close> the document's identifier,
  \<open>timestamp\<close> its creation time (a scanned document has one, so the fallback
  \<^verbatim>\<open>|| new Date()\<close> is never taken).
\<close>

definition history_entry :: "scan_entry \<Rightarrow> message" where
  "history_entry e = (snd e)\<lparr>firebaseId := Some (snd (fst e)), timestamp := fst (fst e)\<rparr>"

text \<open>
  The snapshot of at most \<open>limit * 2\<close> documents, the filter on the room in memory, the
  slice to \<open>limit\<close> and the reversal.
\<close>

definition limitedMessages ::
  "(doc_id, message) js_map \<Rightarrow> room_id \<Rightarrow> nat \<Rightarrow> (time \<times> doc_id) option \<Rightarrow> message list" where
  "limitedMessages docs room limit cursor =
     (let snapshot = take (limit * 2) (startAfter cursor (orderBy_createdAt_desc docs));
          messages = map history_entry (filter (\<lambda>e. roomId (snd e) = room) snapshot)
      in rev (take limit messages))"

text \<open>
  The cursor lookup. \<^verbatim>\<open>if (lastMessageId)\<close> skips an absent and an empty identifier. The
  result is the calls made and, unless the lookup throws (also \<^verbatim>\<open>startAfter\<close> on a
  document without the ordering field), the position to start after, if any.
\<close>

definition history_cursor ::
  "(doc_id, message) js_map \<Rightarrow> doc_id option \<Rightarrow> unit promise
     \<Rightarrow> effect list \<times> (time \<times> doc_id) option promise" where
  "history_cursor docs lastMessageId get_answer =
     (case lastMessageId of
        None \<Rightarrow> ([], Resolved None)
      | Some c \<Rightarrow>
          if c = [] then ([], Resolved None)
          else (case get_answer of
                  Rejected \<Rightarrow> ([Store (MessagesGet c) False], Rejected)
                | Resolved _ \<Rightarrow>
                    (case map_get docs c of
                       None \<Rightarrow> ([Store (MessagesGet c) True], Resolved None)
                     | Some lastDoc \<Rightarrow>
                         (case createdAt lastDoc of
                            None \<Rightarrow> ([Store (MessagesGet c) True], Rejected)
                          | Some t \<Rightarrow> ([Store (MessagesGet c) True], Resolved (Some (t, c)))))))"

definition history_failed :: "socket_id \<Rightarrow> effect list" where
  "history_failed sid =
     [Console ErrorHistory, SocketEmit sid (Error ''Failed to load message history'')]"

definition messages_history ::
  "socket_id \<Rightarrow> history_data option \<Rightarrow> unit promise \<Rightarrow> unit promise \<Rightarrow> state
     \<Rightarrow> state \<times> effect list" where
  "messages_history sid data get_answer query_answer s =
     (case data of
        None \<Rightarrow> (s, history_failed sid)
      | Some d \<Rightarrow>
          let room = (case history_roomId d of None \<Rightarrow> public_hub | Some r \<Rightarrow> r);
              limit = (case history_limit d of None \<Rightarrow> 50 | Some n \<Rightarrow> n)
          in (case history_cursor (chatMessages s) (history_lastMessageId d) get_answer of
                (calls, Rejected) \<Rightarrow> (s, calls @ history_failed sid)
              | (calls, Resolved cursor) \<Rightarrow>
                  (case query_answer of
                     Rejected \<Rightarrow>
                       (s, calls
                           @ [Store (MessagesQuery (limit * 2) (map_option snd cursor)) False]
                           @ history_failed sid)
                   | Resolved _ \<Rightarrow>
                       let page = limitedMessages (chatMessages s) room limit cursor
                       in (s, calls
                              @ [Store (MessagesQuery (limit * 2) (map_option snd cursor)) True,
                                 SocketEmit sid (MessagesHistory page),
                                 Console (LogHistory (length page) room)]))))"

subsection \<open>The server as a machine\<close>

datatype event =
    User_join "identity option" time "time promise"
  | Message_send "send_data option" send_env "(doc_id \<times> time) promise"
  | Typing_start "typing_data option"
  | Typing_stop "typing_data option"
  | Message_like "like_data option" "unit promise" "unit promise"
  | Disconnect "time promise"
  | Messages_history "history_data option" "unit promise" "unit promise"

text \<open>One event on the connection \<open>sid\<close>; \<open>None\<close> when the handler throws.\<close>

fun handle :: "socket_id \<Rightarrow> event \<Rightarrow> state \<Rightarrow> (state \<times> effect list) option" where
  "handle sid (User_join u now w) s = Some (user_join sid u now w s)"
| "handle sid (Message_send m env a) s = Some (message_send sid m env a s)"
| "handle sid (Typing_start d) s = typing_start sid d s"
| "handle sid (Typing_stop d) s = typing_stop sid d s"
| "handle sid (Message_like d g u) s = Some (message_like sid d g u s)"
| "handle sid (Disconnect w) s = Some (disconnect sid w s)"
| "handle sid (Messages_history d g q) s = Some (messages_history sid d g q s)"

text \<open>A sequence of events, each on its connection, from a state; the effects in order.\<close>

fun run :: "(socket_id \<times> event) list \<Rightarrow> state \<Rightarrow> (state \<times> effect list) option" where
  "run [] s = Some (s, [])"
| "run ((sid, e) # es) s =
     (case handle sid e s of
        None \<Rightarrow> None
      | Some (s', fx) \<Rightarrow>
          (case run es s' of
             None \<Rightarrow> None
           | Some (s'', fx') \<Rightarrow> Some (s'', fx @ fx')))"

subsection \<open>Reading a trace\<close>

text \<open>Which calls of a trace carry a given outgoing event, whatever the audience.\<close>

fun is_message_new :: "effect \<Rightarrow> bool" where
  "is_message_new (SocketEmit h (MessageNew m)) = True"
| "is_message_new (SocketTo h r (MessageNew m)) = True"
| "is_message_new (IoTo r (MessageNew m)) = True"
| "is_message_new e = False"

fun is_user_joined :: "effect \<Rightarrow> bool" where
  "is_user_joined (SocketEmit h (UserJoined u m)) = True"
| "is_user_joined (SocketTo h r (UserJoined u m)) = True"
| "is_user_joined (IoTo r (UserJoined u m)) = True"
| "is_user_joined e = False"

fun is_users_list :: "effect \<Rightarrow> bool" where
  "is_users_list (SocketEmit h (UsersList us)) = True"
| "is_users_list (SocketTo h r (UsersList us)) = True"
| "is_users_list (IoTo r (UsersList us)) = True"
| "is_users_list e = False"


fun is_error :: "effect \<Rightarrow> bool" where
  "is_error (SocketEmit h (Error m)) = True"
| "is_error (SocketTo h r (Error m)) = True"
| "is_error (IoTo r (Error m)) = True"
| "is_error e = False"

fun is_store_call :: "effect \<Rightarrow> bool" where
  "is_store_call (Store c ok) = True"
| "is_store_call e = False"

text \<open>The write of a message to the durable log that the store acknowledged.\<close>

fun persisted :: "effect \<Rightarrow> bool" where
  "persisted (Store (MessagesAdd m) ok) = ok"
| "persisted e = False"

text \<open>The call reaches no connection other than \<open>sid\<close>.\<close>

fun only_to :: "socket_id \<Rightarrow> effect \<Rightarrow> bool" where
  "only_to sid (SocketEmit h e) = (h = sid)"
| "only_to sid (SocketTo h r e) = False"
| "only_to sid (IoTo r e) = False"
| "only_to sid e = True"

text \<open>No \<^verbatim>\<open>message:new\<close> comes before the first acknowledged write of the trace.\<close>

fun persist_then_broadcast :: "effect list \<Rightarrow> bool" where
  "persist_then_broadcast [] = True"
| "persist_then_broadcast (e # es) =
     (if persisted e then True else \<not> is_message_new e \<and> persist_then_broadcast es)"

text \<open>Every \<^verbatim>\<open>message:liked\<close> of the trace carries a list without repetition.\<close>

fun liked_distinct :: "effect \<Rightarrow> bool" where
  "liked_distinct (SocketEmit h (MessageLiked d ls u a)) = distinct ls"
| "liked_distinct (SocketTo h r (MessageLiked d ls u a)) = distinct ls"
| "liked_distinct (IoTo r (MessageLiked d ls u a)) = distinct ls"
| "liked_distinct e = True"

text \<open>Every key of \<^verbatim>\<open>userRooms\<close> is a key of \<^verbatim>\<open>activeUsers\<close>.\<close>

definition membership_in_registry :: "state \<Rightarrow> bool" where
  "membership_in_registry s =
     list_all (\<lambda>h. map_get (activeUsers s) h \<noteq> None) (map_keys (userRooms s))"

subsection \<open>Example values\<close>

definition alice :: identity where
  "alice = \<lparr>userId = ''u1'', userName = ''alice'', userEmail = ''alice@example.org'',
            avatar = ''alice.png''\<rparr>"

definition alice_session :: session where
  "alice_session = \<lparr>userId = ''u1'', userName = ''alice'', userEmail = ''alice@example.org'',
                    avatar = ''alice.png'', socketId = ''s1'', joinedAt = 10\<rparr>"

definition alice_presence :: presence where
  "alice_presence = \<lparr>isOnline = True, lastSeen = 11, presence_socketId = ''s1'',
                     presence_userName = ''alice'',
                     presence_userEmail = ''alice@example.org'',
                     presence_avatar = ''alice.png''\<rparr>"

text \<open>The server after alice joined on the connection \<open>s1\<close>.\<close>

definition alice_online :: state where
  "alice_online = \<lparr>activeUsers = [(''s1'', alice_session)],
                   userRooms = [(''s1'', [''public-hub''])],
                   chatMessages = [],
                   chatPresence = [(''u1'', alice_presence)]\<rparr>"

definition hello :: send_data where
  "hello = \<lparr>send_content = ''hello'', send_type = None, send_roomId = None\<rparr>"

definition env0 :: send_env where
  "env0 = \<lparr>date_now = 12, random_suffix = ''k3x9q0a1z'', created_now = 12, broadcast_now = 14\<rparr>"

definition hello_doc :: message where
  "hello_doc = \<lparr>userId = ''u1'', userName = ''alice'', userEmail = ''alice@example.org'',
                avatar = ''alice.png'', msg_id = ''msg_12_k3x9q0a1z'', content = ''hello'',
                msg_type = ''text'', timestamp = 13, roomId = ''public-hub'', likes = [],
                replies = [], createdAt = Some 12, firebaseId = None\<rparr>"

text \<open>The server after alice joined and sent ``hello'', stored as the document \<open>d1\<close>.\<close>

definition chatting :: state where
  "chatting = alice_online\<lparr>chatMessages := [(''d1'', hello_doc)]\<rparr>"

text \<open>The payload of \<^verbatim>\<open>message:like\<close> with the action \<^verbatim>\<open>'like'\<close>.\<close>

definition like_request :: "doc_id \<Rightarrow> like_data" where
  "like_request messageId = \<lparr>like_messageId = messageId, like_action = ''like''\<rparr>"

text \<open>The payload of \<^verbatim>\<open>messages:history\<close> for a room and a limit, without a cursor.\<close>

definition first_page :: "room_id \<Rightarrow> nat \<Rightarrow> history_data" where
  "first_page room limit =
     \<lparr>history_roomId = Some room, history_limit = Some limit, history_lastMessageId = None\<rparr>"

text \<open>The scanned entries that the in-memory filter keeps for a room.\<close>

definition room_entries :: "room_id \<Rightarrow> scan_entry list \<Rightarrow> scan_entry list" where
  "room_entries room es = filter (\<lambda>e. roomId (snd e) = room) es"

text \<open>
  Logs for the examples: the document created at time \<open>i\<close> in room \<open>r\<close>, as alice's
  \<^verbatim>\<open>message:send\<close> would store it, and a run of them for the times \<open>a\<close> up to \<open>b - 1\<close>.
\<close>

definition doc_name :: "nat \<Rightarrow> doc_id" where
  "doc_name i = ''d'' @ decimal i"

definition doc_at :: "room_id \<Rightarrow> nat \<Rightarrow> message" where
  "doc_at r i = \<lparr>userId = ''u1'', userName = ''alice'', userEmail = ''alice@example.org'',
                 avatar = ''alice.png'', msg_id = ''msg_'' @ decimal i @ ''_k3x9q0a1z'',
                 content = ''hello'', msg_type = ''text'', timestamp = i, roomId = r,
                 likes = [], replies = [], createdAt = Some i, firebaseId = None\<rparr>"

definition span :: "room_id \<Rightarrow> nat \<Rightarrow> nat \<Rightarrow> (doc_id, message) js_map" where
  "span r a b = map (\<lambda>i. (doc_name i, doc_at r i)) [a..<b]"

definition entry_at :: "room_id \<Rightarrow> nat \<Rightarrow> scan_entry" where
  "entry_at r i = ((i, doc_name i), doc_at r i)"

text \<open>One message in the room \<open>quiet\<close>, then two newer ones in the public room.\<close>

definition crowded :: state where
  "crowded = alice_online\<lparr>chatMessages := span ''quiet'' 0 1 @ span ''public-hub'' 1 3\<rparr>"

text \<open>Three messages in the public room, then two newer ones in the room \<open>quiet\<close>.\<close>

definition roomy :: state where
  "roomy = alice_online\<lparr>chatMessages := span ''public-hub'' 0 3 @ span ''quiet'' 3 5\<rparr>"

text \<open>200 messages: the three oldest in the room \<open>quiet\<close>, 197 newer ones in the public room.\<close>

definition old_quiet :: state where
  "old_quiet = alice_online\<lparr>chatMessages := span ''quiet'' 0 3 @ span ''public-hub'' 3 200\<rparr>"

text \<open>200 messages: 197 in the public room, then the three newest in the room \<open>quiet\<close>.\<close>

definition new_quiet :: state where
  "new_quiet = alice_online\<lparr>chatMessages := span ''public-hub'' 0 197 @ span ''quiet'' 197 200\<rparr>"

section \<open>Properties\<close>

subsection \<open>The \<^verbatim>\<open>Map\<close> operations\<close>

lemma map_get_map_set: "map_get (map_set k v m) k' = (if k' = k then Some v else map_get m k')"
  by (induction m) auto

lemma map_get_map_delete: "map_get (map_delete k m) k' = (if k' = k then None else map_get m k')"
  by (induction m) auto

lemma map_keys_map_set: "set (map_keys (map_set k v m)) = insert k (set (map_keys m))"
  by (induction m) (auto simp: map_keys_def)

lemma map_keys_map_delete: "set (map_keys (map_delete k m)) = set (map_keys m) - {k}"
  by (induction m) (auto simp: map_keys_def)

lemma map_get_None_iff: "map_get m k = None \<longleftrightarrow> k \<notin> set (map_keys m)"
  by (induction m) (auto simp: map_keys_def)

lemma map_set_fresh: "k \<notin> set (map_keys m) \<Longrightarrow> map_set k v m = m @ [(k, v)]"
  by (induction m) (auto simp: map_keys_def)

lemma map_set_same: "map_get m k = Some v \<Longrightarrow> map_set k v m = m"
  by (induction m) (auto split: if_splits)

text \<open>The example state is the one the server reaches when alice joins.\<close>

lemma alice_online_reached:
  "run [(''s1'', User_join (Some alice) 10 (Resolved 11))] init
     = Some (alice_online,
             [SocketJoin ''s1'' ''public-hub'',
              Store (PresenceSet ''u1'') True,
              SocketTo ''s1'' ''public-hub'' (UserJoined alice ''alice joined the chat''),
              SocketEmit ''s1'' (UsersList [alice_session]),
              Console (LogJoined ''alice'' ''u1'')])"
  by (simp add: user_join_def init_def alice_def alice_online_def alice_session_def
        alice_presence_def public_hub_def in_public_hub_def map_values_def Let_def)

subsection \<open>Sending a message\<close>

text \<open>
  What \<open>persist_then_broadcast\<close> says: wherever a \<^verbatim>\<open>message:new\<close> stands in the trace, an
  acknowledged write stands before it.
\<close>

lemma persisted_not_message_new: "persisted e \<Longrightarrow> \<not> is_message_new e"
  by (cases e rule: persisted.cases) auto

lemma persist_then_broadcast_split:
  assumes "persist_then_broadcast fx" and "fx = pre @ e # post" and "is_message_new e"
  shows "list_ex persisted pre"
  using assms
proof (induction fx arbitrary: pre)
  case Nil
  then show ?case by simp
next
  case (Cons a fx)
  show ?case
  proof (cases pre)
    case Nil
    with Cons.prems have "a = e" by simp
    with Cons.prems(1,3) show ?thesis
      by (auto dest: persisted_not_message_new split: if_splits)
  next
    case (Cons b pre')
    with Cons.prems have ab: "b = a" and fx: "fx = pre' @ e # post" by simp_all
    show ?thesis
    proof (cases "persisted a")
      case True
      then show ?thesis using Cons ab by simp
    next
      case False
      with Cons.prems(1) have "persist_then_broadcast fx" by simp
      from Cons.IH [OF this fx Cons.prems(3)] show ?thesis using Cons by simp
    qed
  qed
qed

text \<open>With a session, the write is acknowledged exactly when there was one to make and
  the store accepted it.\<close>

lemma message_send_persisted_iff:
  assumes "map_get (activeUsers s) sid = Some user"
  shows "list_ex persisted (snd (message_send sid messageData env add_answer s))
           \<longleftrightarrow> messageData \<noteq> None \<and> add_outcome (chatMessages s) add_answer \<noteq> Rejected"
  using assms
  by (cases messageData; cases "add_outcome (chatMessages s) add_answer")
     (auto simp: message_send_def Let_def split: prod.splits)

lemma add_outcome_fresh:
  "add_outcome docs answer = Resolved (d, t) \<Longrightarrow> d \<notin> set (map_keys docs)"
  by (auto simp: add_outcome_def split: promise.splits if_splits)

lemma decimal_12: "decimal 12 = ''12''"
  by code_simp

text \<open>
  C1. A \<^verbatim>\<open>message:send\<close> on a connection that has a session: in the trace of the handler
  no \<^verbatim>\<open>message:new\<close> comes before the acknowledged write to the durable log. When the
  trace has an acknowledged write, the payload was readable and the store accepted the
  write; the trace is then the write of the document, after it the \<^verbatim>\<open>message:new\<close> to the
  whole room the message was sent to (the public room when the payload names none),
  carrying the message with the identifier the store chose, and after it the console line;
  the state afterwards is the state before with the document appended to the log. When
  the trace has no acknowledged write (the write was rejected, or never made), the state
  is unchanged, the sender is sent the error event, nothing in the trace reaches another
  connection, and there is no \<^verbatim>\<open>message:new\<close>.
\<close>

theorem message_send_persist_then_broadcast:
  assumes "map_get (activeUsers s) sid = Some user"
      and "message_send sid messageData env add_answer s = (s', fx)"
  shows "persist_then_broadcast fx
       \<and> (if list_ex persisted fx
          then list_ex is_message_new fx
             \<and> (case (messageData, add_outcome (chatMessages s) add_answer) of
                   (Some md, Resolved (d, t)) \<Rightarrow>
                     (let room = (case send_roomId md of None \<Rightarrow> ''public-hub'' | Some r \<Rightarrow> r);
                          msg = \<lparr>userId = userId user, userName = userName user,
                                 userEmail = userEmail user, avatar = avatar user,
                                 msg_id = ''msg_'' @ decimal (date_now env) @ ''_''
                                            @ random_suffix env,
                                 content = send_content md,
                                 msg_type = (case send_type md of None \<Rightarrow> ''text'' | Some ty \<Rightarrow> ty),
                                 timestamp = t, roomId = room, likes = [], replies = [],
                                 createdAt = Some (created_now env), firebaseId = None\<rparr>
                      in fx = [Store (MessagesAdd msg) True,
                               IoTo room
                                 (MessageNew
                                    (msg\<lparr>timestamp := broadcast_now env, createdAt := None,
                                          firebaseId := Some d\<rparr>)),
                               Console (LogSent (userName user) room)]
                       \<and> s' = s\<lparr>chatMessages := chatMessages s @ [(d, msg)]\<rparr>)
                 | _ \<Rightarrow> False)
          else s' = s
             \<and> list_ex (\<lambda>e. e = SocketEmit sid (Error ''Failed to send message'')) fx
             \<and> list_all (only_to sid) fx
             \<and> \<not> list_ex is_message_new fx)"
proof (cases messageData)
  case None
  with assms show ?thesis by (auto simp: message_send_def)
next
  case (Some md)
  show ?thesis
  proof (cases "add_outcome (chatMessages s) add_answer")
    case Rejected
    with Some assms show ?thesis by (auto simp: message_send_def Let_def)
  next
    case (Resolved p)
    obtain d t where p: "p = (d, t)" by (cases p)
    from Resolved p have "d \<notin> set (map_keys (chatMessages s))"
      by (auto dest: add_outcome_fresh)
    then have "map_set d v (chatMessages s) = chatMessages s @ [(d, v)]" for v
      by (rule map_set_fresh)
    with Some Resolved p assms show ?thesis
      by (cases "send_roomId md") (auto simp: message_send_def Let_def public_hub_def)
  qed
qed

text \<open>
  C1, at an input: alice, who has a session, sends ``hello''. When the store accepts the
  write, the log gets the document \<open>d1\<close>, and the trace is the write, then the
  \<^verbatim>\<open>message:new\<close> to the public room, then the console line; when the store rejects it,
  the state is the one before, alice alone is sent the error, and no \<^verbatim>\<open>message:new\<close>
  goes out.
\<close>

theorem message_send_persist_then_broadcast_witness:
  "map_get (activeUsers alice_online) ''s1'' = Some alice_session
   \<and> persist_then_broadcast
       (snd (message_send ''s1'' (Some hello) env0 (Resolved (''d1'', 13)) alice_online))
   \<and> list_ex persisted
       (snd (message_send ''s1'' (Some hello) env0 (Resolved (''d1'', 13)) alice_online))
   \<and> list_ex is_message_new
       (snd (message_send ''s1'' (Some hello) env0 (Resolved (''d1'', 13)) alice_online))
   \<and> message_send ''s1'' (Some hello) env0 (Resolved (''d1'', 13)) alice_online
       = (chatting,
          [Store (MessagesAdd hello_doc) True,
           IoTo ''public-hub''
             (MessageNew
                (hello_doc\<lparr>timestamp := 14, createdAt := None, firebaseId := Some ''d1''\<rparr>)),
           Console (LogSent ''alice'' ''public-hub'')])
   \<and> \<not> list_ex persisted (snd (message_send ''s1'' (Some hello) env0 Rejected alice_online))
   \<and> fst (message_send ''s1'' (Some hello) env0 Rejected alice_online) = alice_online
   \<and> list_ex (\<lambda>e. e = SocketEmit ''s1'' (Error ''Failed to send message''))
       (snd (message_send ''s1'' (Some hello) env0 Rejected alice_online))
   \<and> list_all (only_to ''s1'')
       (snd (message_send ''s1'' (Some hello) env0 Rejected alice_online))
   \<and> \<not> list_ex is_message_new
         (snd (message_send ''s1'' (Some hello) env0 Rejected alice_online))"
proof -
  have auth: "map_get (activeUsers alice_online) ''s1'' = Some alice_session"
    by (simp add: alice_online_def)
  have ok: "list_ex persisted
       (snd (message_send ''s1'' (Some hello) env0 (Resolved (''d1'', 13)) alice_online))"
    by (simp add: message_send_def alice_online_def add_outcome_def map_keys_def Let_def)
  have ko: "\<not> list_ex persisted
       (snd (message_send ''s1'' (Some hello) env0 Rejected alice_online))"
    by (simp add: message_send_def alice_online_def add_outcome_def Let_def)
  have fresh: "add_outcome (chatMessages alice_online) (Resolved (''d1'', 13))
                 = Resolved (''d1'', 13)"
    by (simp add: add_outcome_def alice_online_def map_keys_def)
  from message_send_persist_then_broadcast [OF auth surjective_pairing,
         of "Some hello" env0 "Resolved (''d1'', 13)"] ok fresh
  have sent: "message_send ''s1'' (Some hello) env0 (Resolved (''d1'', 13)) alice_online
       = (chatting,
          [Store (MessagesAdd hello_doc) True,
           IoTo ''public-hub''
             (MessageNew
                (hello_doc\<lparr>timestamp := 14, createdAt := None, firebaseId := Some ''d1''\<rparr>)),
           Console (LogSent ''alice'' ''public-hub'')])"
    by (simp add: prod_eq_iff Let_def hello_def env0_def alice_session_def hello_doc_def
          chatting_def alice_online_def decimal_12)
  from message_send_persist_then_broadcast [OF auth surjective_pairing,
         of "Some hello" env0 "Resolved (''d1'', 13)"]
       message_send_persist_then_broadcast [OF auth surjective_pairing,
         of "Some hello" env0 Rejected]
       auth ok ko sent
  show ?thesis by simp
qed

text \<open>
  C6. A \<^verbatim>\<open>message:send\<close> on a connection without a session leaves the state as it was
  and does one thing only: it emits the error event on that connection. The trace holds no
  store call and nothing that reaches another connection.
\<close>

theorem message_send_unauthenticated:
  assumes "map_get (activeUsers s) sid = None"
      and "message_send sid messageData env add_answer s = (s', fx)"
  shows "s' = s
       \<and> fx = [SocketEmit sid (Error ''User not authenticated'')]
       \<and> \<not> list_ex is_store_call fx
       \<and> list_all (only_to sid) fx
       \<and> \<not> list_ex is_message_new fx"
  using assms by (auto simp: message_send_def)

text \<open>
  C6, at an input: on the fresh server nobody has a session, and a send on \<open>s1\<close> is
  answered with the error alone, whatever the store would have said.
\<close>

theorem message_send_unauthenticated_witness:
  "map_get (activeUsers init) ''s1'' = None
   \<and> message_send ''s1'' (Some hello) env0 (Resolved (''d1'', 13)) init
       = (init, [SocketEmit ''s1'' (Error ''User not authenticated'')])"
proof -
  have none: "map_get (activeUsers init) ''s1'' = None"
    by (simp add: init_def)
  from message_send_unauthenticated [OF none surjective_pairing,
         of "Some hello" env0 "Resolved (''d1'', 13)"]
  have "message_send ''s1'' (Some hello) env0 (Resolved (''d1'', 13)) init
          = (init, [SocketEmit ''s1'' (Error ''User not authenticated'')])"
    by (simp add: prod_eq_iff)
  with none show ?thesis by simp
qed

subsection \<open>Joining and leaving\<close>

text \<open>
  C10. When the presence write of \<^verbatim>\<open>user:join\<close> is rejected, the joining client is sent
  the error event, and the session and the room membership written before the \<^verbatim>\<open>await\<close>
  are still in the two tables afterwards; the presence table is untouched; neither
  \<^verbatim>\<open>user:joined\<close> nor \<^verbatim>\<open>users:list\<close> is in the trace.
\<close>

theorem user_join_failure_not_rolled_back:
  "(case user_join sid (Some u) now Rejected s of
      (s', fx) \<Rightarrow>
        list_ex (\<lambda>e. e = SocketEmit sid (Error ''Failed to join chat'')) fx
      \<and> map_get (activeUsers s') sid
          = Some \<lparr>userId = userId u, userName = userName u, userEmail = userEmail u,
                  avatar = avatar u, socketId = sid, joinedAt = now\<rparr>
      \<and> map_get (userRooms s') sid = Some [public_hub]
      \<and> chatPresence s' = chatPresence s
      \<and> \<not> list_ex is_user_joined fx
      \<and> \<not> list_ex is_users_list fx)"
  by (simp add: user_join_def Let_def map_get_map_set)





subsection \<open>Membership and sessions\<close>

lemma membership_in_registry_iff:
  "membership_in_registry s \<longleftrightarrow> set (map_keys (userRooms s)) \<subseteq> set (map_keys (activeUsers s))"
  by (auto simp: membership_in_registry_def list_all_iff map_get_None_iff)

lemma handle_membership:
  assumes "membership_in_registry s" and "handle sid e s = Some (s', fx)"
  shows "membership_in_registry s'"
proof (cases e)
  case (User_join u now w)
  with assms show ?thesis
    by (auto simp: membership_in_registry_iff user_join_def Let_def map_keys_map_set
             split: option.splits promise.splits)
next
  case (Message_send m env a)
  with assms show ?thesis
    by (auto simp: membership_in_registry_iff message_send_def Let_def
             split: option.splits promise.splits prod.splits)
next
  case (Typing_start d)
  with assms show ?thesis
    by (auto simp: typing_start_def split: option.splits)
next
  case (Typing_stop d)
  with assms show ?thesis
    by (auto simp: typing_stop_def split: option.splits)
next
  case (Message_like d g u)
  with assms show ?thesis
    by (auto simp: membership_in_registry_iff message_like_def Let_def
             split: option.splits promise.splits)
next
  case (Disconnect w)
  with assms show ?thesis
    by (auto simp: membership_in_registry_iff disconnect_def Let_def map_keys_map_delete
             split: option.splits promise.splits prod.splits)
next
  case (Messages_history d g q)
  with assms show ?thesis
    by (auto simp: membership_in_registry_iff messages_history_def Let_def
             split: option.splits promise.splits prod.splits)
qed

lemma run_membership:
  "membership_in_registry s \<Longrightarrow> run evs s = Some (s', fx) \<Longrightarrow> membership_in_registry s'"
proof (induction evs arbitrary: s fx)
  case Nil
  then show ?case by simp
next
  case (Cons p evs)
  obtain sid e where p: "p = (sid, e)" by (cases p)
  from Cons.prems(2) p obtain s1 fx1 fx2
    where h: "handle sid e s = Some (s1, fx1)" and r: "run evs s1 = Some (s', fx2)"
    by (auto split: option.splits prod.splits)
  from handle_membership [OF Cons.prems(1) h] have "membership_in_registry s1" .
  from Cons.IH [OF this r] show ?case .
qed

text \<open>
  C9. In a state the server reaches from its start by any sequence of events, each on
  any connection and with any answers of the store, a connection that has an entry in
  \<^verbatim>\<open>userRooms\<close> has an entry in \<^verbatim>\<open>activeUsers\<close>.
\<close>

theorem membership_only_with_session:
  assumes "run evs init = Some (s, fx)" and "map_get (userRooms s) h = Some rooms"
  shows "\<exists>u. map_get (activeUsers s) h = Some u"
proof -
  have "membership_in_registry init"
    by (simp add: membership_in_registry_def init_def map_keys_def)
  from run_membership [OF this assms(1)] have "membership_in_registry s" .
  moreover from assms(2) have "h \<in> set (map_keys (userRooms s))"
    using map_get_None_iff [of "userRooms s" h] by simp
  ultimately have "map_get (activeUsers s) h \<noteq> None"
    by (simp add: membership_in_registry_def list_all_iff)
  then show ?thesis by auto
qed

text \<open>
  C9, at an input: after alice joined on \<open>s1\<close>, that connection is in \<^verbatim>\<open>userRooms\<close>, and
  it has a session.
\<close>

theorem membership_only_with_session_witness:
  "map_get (userRooms alice_online) ''s1'' = Some [''public-hub'']
   \<and> (\<exists>u. map_get (activeUsers alice_online) ''s1'' = Some u)"
proof -
  have rooms: "map_get (userRooms alice_online) ''s1'' = Some [''public-hub'']"
    by (simp add: alice_online_def)
  from membership_only_with_session [OF alice_online_reached rooms] rooms
  show ?thesis by simp
qed

subsection \<open>Likes\<close>

lemma map_set_twice: "map_set k v (map_set k v' m) = map_set k v m"
  by (induction m) auto

lemma update_likes_like_twice:
  "update_likes ''like'' uid (update_likes ''like'' uid ls) = update_likes ''like'' uid ls"
  by (simp add: update_likes_def)

lemma distinct_update_likes: "distinct ls \<Longrightarrow> distinct (update_likes action uid ls)"
  by (simp add: update_likes_def)

text \<open>The example state \<open>chatting\<close> is reached by alice joining and sending ``hello''.\<close>

lemma chatting_reached:
  "map_option fst
     (run [(''s1'', User_join (Some alice) 10 (Resolved 11)),
           (''s1'', Message_send (Some hello) env0 (Resolved (''d1'', 13)))] init)
     = Some chatting"
  by (simp add: user_join_def message_send_def add_outcome_def init_def alice_def
        alice_online_def alice_session_def alice_presence_def public_hub_def in_public_hub_def
        map_values_def map_keys_def Let_def chatting_def hello_doc_def hello_def env0_def
        decimal_12)

lemma message_like_twice:
  "message_like sid (Some (like_request mid)) g u
     (fst (message_like sid (Some (like_request mid)) g u s))
   = message_like sid (Some (like_request mid)) g u s"
proof (cases "map_get (activeUsers s) sid")
  case None
  then show ?thesis by (simp add: message_like_def)
next
  case (Some user)
  show ?thesis
  proof (cases "map_get (chatMessages s) mid")
    case None
    with Some show ?thesis
      by (cases g) (simp_all add: message_like_def like_request_def)
  next
    case (Some m)
    let ?ls = "update_likes ''like'' (userId user) (likes m)"
    let ?s1 = "s\<lparr>chatMessages := map_set mid (m\<lparr>likes := ?ls\<rparr>) (chatMessages s)\<rparr>"
    have get1: "map_get (chatMessages ?s1) mid = Some (m\<lparr>likes := ?ls\<rparr>)"
      by (simp add: map_get_map_set)
    have same: "?s1\<lparr>chatMessages := map_set mid (m\<lparr>likes := ?ls\<rparr>) (chatMessages ?s1)\<rparr> = ?s1"
      by (simp add: map_set_twice)
    from \<open>map_get (activeUsers s) sid = Some user\<close> Some get1 same show ?thesis
      by (cases g; cases u)
         (simp_all add: message_like_def like_request_def Let_def update_likes_like_twice)
  qed
qed

text \<open>
  C5. For a connection with a session and a stored message: a second \<^verbatim>\<open>message:like\<close>
  with the action \<^verbatim>\<open>'like'\<close>, given the same answers of the store, ends in the state of the
  first and with the trace of the first, so the persisted likes and the broadcast likes
  are those of liking once. After a like that the store accepted, the persisted likes
  are the fetched ones with the user added if absent, the user is among them, and a
  further like leaves the state unchanged whatever the store answers.
\<close>

theorem like_twice_as_once:
  assumes "map_get (activeUsers s) sid = Some user"
      and "map_get (chatMessages s) mid = Some m"
      and "message_like sid (Some (like_request mid)) (Resolved ()) (Resolved ()) s = (s1, fx1)"
  shows "message_like sid (Some (like_request mid)) g u
           (fst (message_like sid (Some (like_request mid)) g u s))
         = message_like sid (Some (like_request mid)) g u s
       \<and> message_like sid (Some (like_request mid)) (Resolved ()) (Resolved ()) s1 = (s1, fx1)
       \<and> fst (message_like sid (Some (like_request mid)) g u s1) = s1
       \<and> map_option likes (map_get (chatMessages s1) mid)
           = Some (update_likes ''like'' (userId user) (likes m))
       \<and> userId user \<in> set (update_likes ''like'' (userId user) (likes m))"
proof -
  let ?ls = "update_likes ''like'' (userId user) (likes m)"
  from assms have s1: "s1 = s\<lparr>chatMessages := map_set mid (m\<lparr>likes := ?ls\<rparr>) (chatMessages s)\<rparr>"
    and fx1: "fx1 = [Store (MessagesGet mid) True, Store (MessagesUpdate mid ?ls) True,
                     IoTo (or_public_hub (roomId m)) (MessageLiked mid ?ls (userId user) ''like'')]"
    by (auto simp: message_like_def like_request_def Let_def)
  have auth1: "map_get (activeUsers s1) sid = Some user" using assms(1) s1 by simp
  have get1: "map_get (chatMessages s1) mid = Some (m\<lparr>likes := ?ls\<rparr>)"
    using s1 by (simp add: map_get_map_set)
  have same: "s1\<lparr>chatMessages := map_set mid (m\<lparr>likes := ?ls\<rparr>) (chatMessages s1)\<rparr> = s1"
    using s1 by (simp add: map_set_twice)
  have again: "message_like sid (Some (like_request mid)) (Resolved ()) (Resolved ()) s1 = (s1, fx1)"
    using auth1 get1 same fx1
    by (simp add: message_like_def like_request_def Let_def update_likes_like_twice)
  have fixed: "fst (message_like sid (Some (like_request mid)) g u s1) = s1"
    using auth1 get1 same
    by (cases g; cases u)
       (simp_all add: message_like_def like_request_def Let_def update_likes_like_twice)
  have member: "userId user \<in> set ?ls"
    by (simp add: update_likes_def)
  from message_like_twice again fixed get1 member show ?thesis by simp
qed

text \<open>
  C5, at an input: alice likes her message \<open>d1\<close>, which nobody liked. Liking again gives
  what liking once gave, and the stored likes are alice alone.
\<close>

theorem like_twice_as_once_witness:
  "map_get (activeUsers chatting) ''s1'' = Some alice_session
   \<and> map_get (chatMessages chatting) ''d1'' = Some hello_doc
   \<and> message_like ''s1'' (Some (like_request ''d1'')) (Resolved ()) (Resolved ())
       (fst (message_like ''s1'' (Some (like_request ''d1'')) (Resolved ()) (Resolved ())
               chatting))
     = message_like ''s1'' (Some (like_request ''d1'')) (Resolved ()) (Resolved ()) chatting
   \<and> map_option likes
       (map_get
          (chatMessages
             (fst (message_like ''s1'' (Some (like_request ''d1'')) (Resolved ()) (Resolved ())
                     chatting)))
          ''d1'')
     = Some [''u1'']"
proof -
  have auth: "map_get (activeUsers chatting) ''s1'' = Some alice_session"
    by (simp add: chatting_def alice_online_def)
  have stored: "map_get (chatMessages chatting) ''d1'' = Some hello_doc"
    by (simp add: chatting_def)
  have ls: "update_likes ''like'' (userId alice_session) (likes hello_doc) = [''u1'']"
    by (simp add: update_likes_def alice_session_def hello_doc_def)
  from like_twice_as_once [OF auth stored surjective_pairing,
         of "Resolved ()" "Resolved ()"] auth stored ls
  show ?thesis by simp
qed

text \<open>
  C8. A \<^verbatim>\<open>message:like\<close> event, with any action, from any connection and whatever the store
  answers, on a stored message whose likes have no repetition: afterwards the message is
  still stored, its likes have no repetition, and neither have the likes of any
  \<^verbatim>\<open>message:liked\<close> in the trace.
\<close>

theorem like_keeps_likes_distinct:
  assumes "map_get (chatMessages s) (like_messageId d) = Some m" and "distinct (likes m)"
  shows "(case message_like sid (Some d) get_answer update_answer s of
            (s', fx) \<Rightarrow>
              (case map_get (chatMessages s') (like_messageId d) of
                 None \<Rightarrow> False
               | Some m' \<Rightarrow> distinct (likes m'))
            \<and> list_all liked_distinct fx)"
  using assms
  by (cases get_answer; cases update_answer)
     (auto simp: message_like_def Let_def map_get_map_set distinct_update_likes
           split: option.splits)

text \<open>
  C8, at an input: alice likes \<open>d1\<close>, whose likes are empty; the trace is the two store
  calls and the broadcast of the likes, alice alone.
\<close>

theorem like_keeps_likes_distinct_witness:
  "map_get (chatMessages chatting) (like_messageId (like_request ''d1'')) = Some hello_doc
   \<and> distinct (likes hello_doc)
   \<and> list_all liked_distinct
       (snd (message_like ''s1'' (Some (like_request ''d1'')) (Resolved ()) (Resolved ())
               chatting))
   \<and> snd (message_like ''s1'' (Some (like_request ''d1'')) (Resolved ()) (Resolved ()) chatting)
       = [Store (MessagesGet ''d1'') True,
          Store (MessagesUpdate ''d1'' [''u1'']) True,
          IoTo ''public-hub'' (MessageLiked ''d1'' [''u1''] ''u1'' ''like'')]"
proof -
  have stored: "map_get (chatMessages chatting) (like_messageId (like_request ''d1''))
                  = Some hello_doc"
    by (simp add: chatting_def like_request_def)
  have dist: "distinct (likes hello_doc)"
    by (simp add: hello_doc_def)
  have trace: "snd (message_like ''s1'' (Some (like_request ''d1'')) (Resolved ()) (Resolved ())
                      chatting)
                 = [Store (MessagesGet ''d1'') True,
                    Store (MessagesUpdate ''d1'' [''u1'']) True,
                    IoTo ''public-hub'' (MessageLiked ''d1'' [''u1''] ''u1'' ''like'')]"
    by (simp add: message_like_def like_request_def chatting_def alice_online_def
          alice_session_def hello_doc_def update_likes_def or_public_hub_def Let_def)
  from like_keeps_likes_distinct [OF stored dist, of "''s1''" "Resolved ()" "Resolved ()"]
  have "list_all liked_distinct
          (snd (message_like ''s1'' (Some (like_request ''d1'')) (Resolved ()) (Resolved ())
                  chatting))"
    by (simp add: case_prod_beta)
  with stored dist trace show ?thesis by simp
qed

subsection \<open>History\<close>

text \<open>
  Without a cursor the page is cut from the chronological order of the log: the newest
  \<open>limit * 2\<close> documents, of these the ones of the room, of these the newest \<open>limit\<close>, oldest
  first.
\<close>

lemma limitedMessages_window:
  "limitedMessages docs room limit None =
     (let X = map history_entry
                (room_entries room
                   (drop (length (chronological docs) - limit * 2) (chronological docs)))
      in drop (length X - limit) X)"
  by (simp add: limitedMessages_def startAfter_def orderBy_createdAt_desc_def room_entries_def
        take_rev rev_filter [symmetric] rev_map [symmetric] rev_take Let_def)

lemma room_entries_append:
  "room_entries room (xs @ ys) = room_entries room xs @ room_entries room ys"
  by (simp add: room_entries_def)

lemma room_entries_take_drop:
  "room_entries room xs = room_entries room (take j xs) @ room_entries room (drop j xs)"
  unfolding room_entries_append [symmetric] by simp

lemma room_entries_window:
  assumes "list_all (\<lambda>e. roomId (snd e) \<noteq> room) (drop k (orderBy_createdAt_desc docs))"
  shows "room_entries room (drop (length (chronological docs) - k) (chronological docs))
           = room_entries room (chronological docs)"
proof -
  let ?C = "chronological docs"
  let ?j = "length ?C - k"
  from assms have "room_entries room (take ?j ?C) = []"
    by (simp add: orderBy_createdAt_desc_def drop_rev room_entries_def filter_empty_conv
          list_all_iff)
  with room_entries_take_drop [of room ?C ?j] show ?thesis by simp
qed

text \<open>The example logs are stored in the order of creation.\<close>

lemma dated_append: "dated (xs @ ys) = dated xs @ dated ys"
  by (simp add: dated_def)

lemma dated_span: "dated (span r a b) = map (entry_at r) [a..<b]"
  by (simp add: dated_def span_def entry_at_def doc_at_def comp_def map_concat)

lemma sorted_keys: "sorted (map (\<lambda>i. (i, doc_name i)) [a..<c])"
  unfolding sorted_map
  by (rule sorted_wrt_mono_rel [OF _ sorted_wrt_upt]) simp

lemma chronological_spans:
  assumes "a \<le> b" and "b \<le> c"
  shows "chronological (span r a b @ span r' b c)
           = map (entry_at r) [a..<b] @ map (entry_at r') [b..<c]"
proof -
  have "[a..<c] = [a..<b] @ [b..<c]"
    using assms by (metis le_Suc_ex upt_add_eq_append)
  then have "map fst (map (entry_at r) [a..<b] @ map (entry_at r') [b..<c])
        = map (\<lambda>i. (i, doc_name i)) [a..<c]"
    by (simp add: entry_at_def comp_def)
  then have "sorted (map fst (map (entry_at r) [a..<b] @ map (entry_at r') [b..<c]))"
    by (simp only: sorted_keys)
  then show ?thesis
    unfolding chronological_def dated_append dated_span by (rule sort_key_id_if_sorted)
qed

lemma room_entries_span_drop:
  "room_entries room (drop n (map (entry_at r) xs))
     = (if r = room then drop n (map (entry_at r) xs) else [])"
  by (auto simp: room_entries_def entry_at_def doc_at_def filter_empty_conv filter_id_conv
           dest!: in_set_dropD)

lemma room_entries_span:
  "room_entries room (map (entry_at r) xs) = (if r = room then map (entry_at r) xs else [])"
  using room_entries_span_drop [of room 0 r xs] by simp

lemma room_entries_Nil: "room_entries room [] = []"
  by (simp add: room_entries_def)

lemma room_entries_Cons:
  "room_entries room (entry_at r i # es)
     = (if r = room then entry_at r i # room_entries room es else room_entries room es)"
  by (simp add: room_entries_def entry_at_def doc_at_def)

text \<open>
  C3 as stated fails. The room \<open>quiet\<close> holds one message, created first; two newer
  messages are in the public room. A request for the history of \<open>quiet\<close> with limit 1
  scans the two newest documents, finds none of the room, and answers with the empty
  page.
\<close>

theorem history_in_order_counterexample:
  "room_entries ''quiet'' (chronological (chatMessages crowded)) = [entry_at ''quiet'' 0]
   \<and> messages_history ''s1'' (Some (first_page ''quiet'' 1)) (Resolved ()) (Resolved ()) crowded
       = (crowded,
          [Store (MessagesQuery 2 None) True,
           SocketEmit ''s1'' (MessagesHistory []),
           Console (LogHistory 0 ''quiet'')])"
proof -
  have C: "chronological (chatMessages crowded)
             = map (entry_at ''quiet'') [0..<1] @ map (entry_at ''public-hub'') [1..<3]"
    by (simp add: crowded_def chronological_spans del: upt_rec_numeral)
  have "limitedMessages (chatMessages crowded) ''quiet'' 1 None = []"
    unfolding limitedMessages_window C
    by (simp add: room_entries_span room_entries_span_drop del: upt_rec_numeral)
  then have "messages_history ''s1'' (Some (first_page ''quiet'' 1)) (Resolved ()) (Resolved ())
               crowded
             = (crowded,
                [Store (MessagesQuery 2 None) True,
                 SocketEmit ''s1'' (MessagesHistory []),
                 Console (LogHistory 0 ''quiet'')])"
    by (simp add: messages_history_def history_cursor_def first_page_def Let_def)
  moreover have "room_entries ''quiet'' (chronological (chatMessages crowded))
                   = [entry_at ''quiet'' 0]"
    unfolding C
    by (simp add: room_entries_append room_entries_span room_entries_Cons room_entries_Nil)
  ultimately show ?thesis by simp
qed

text \<open>
  C3, amended. Let \<open>Ms\<close> be the messages of a room in the order of their creation, \<open>n\<close> of
  them, and let no document of the room lie beyond the first \<open>2 n\<close> documents of the scan
  (newest first, all rooms). Then a \<^verbatim>\<open>messages:history\<close> request for the room with limit
  \<open>n\<close> and no cursor, the store answering the query, emits to the requester exactly \<open>Ms\<close>,
  oldest first, and no error.
\<close>

theorem history_returns_room_in_order:
  assumes "room_entries room (chronological (chatMessages s)) = Ms"
      and "list_all (\<lambda>e. roomId (snd e) \<noteq> room)
             (drop (length Ms * 2) (orderBy_createdAt_desc (chatMessages s)))"
  shows "messages_history sid (Some (first_page room (length Ms))) get_answer (Resolved ()) s
         = (s, [Store (MessagesQuery (length Ms * 2) None) True,
                SocketEmit sid (MessagesHistory (map history_entry Ms)),
                Console (LogHistory (length Ms) room)])"
proof -
  from room_entries_window [OF assms(2)] assms(1)
  have "limitedMessages (chatMessages s) room (length Ms) None = map history_entry Ms"
    by (simp add: limitedMessages_window Let_def)
  then show ?thesis
    by (simp add: messages_history_def history_cursor_def first_page_def Let_def)
qed

text \<open>
  C3 amended, at an input: three messages in the public room, then two in \<open>quiet\<close>. The
  scan for limit 2 reads the four newest documents; the one it does not reach is of the
  public room. The page is the two messages of \<open>quiet\<close>, the older first.
\<close>

theorem history_returns_room_in_order_witness:
  "room_entries ''quiet'' (chronological (chatMessages roomy))
     = [entry_at ''quiet'' 3, entry_at ''quiet'' 4]
   \<and> list_all (\<lambda>e. roomId (snd e) \<noteq> ''quiet'')
       (drop (length [entry_at ''quiet'' 3, entry_at ''quiet'' 4] * 2)
          (orderBy_createdAt_desc (chatMessages roomy)))
   \<and> messages_history ''s1'' (Some (first_page ''quiet'' 2)) (Resolved ()) (Resolved ()) roomy
       = (roomy,
          [Store (MessagesQuery 4 None) True,
           SocketEmit ''s1''
             (MessagesHistory
                [history_entry (entry_at ''quiet'' 3), history_entry (entry_at ''quiet'' 4)]),
           Console (LogHistory 2 ''quiet'')])"
proof -
  have C: "chronological (chatMessages roomy)
             = map (entry_at ''public-hub'') [0..<3] @ map (entry_at ''quiet'') [3..<5]"
    by (simp add: roomy_def chronological_spans del: upt_rec_numeral)
  have Ms: "room_entries ''quiet'' (chronological (chatMessages roomy))
              = [entry_at ''quiet'' 3, entry_at ''quiet'' 4]"
    unfolding C
    by (simp add: room_entries_append room_entries_span room_entries_Cons room_entries_Nil)
  have rest: "list_all (\<lambda>e. roomId (snd e) \<noteq> ''quiet'')
                (drop (length [entry_at ''quiet'' 3, entry_at ''quiet'' 4] * 2)
                   (orderBy_createdAt_desc (chatMessages roomy)))"
    unfolding orderBy_createdAt_desc_def C
    by (auto simp: list_all_iff entry_at_def doc_at_def dest!: in_set_dropD)
  from history_returns_room_in_order [OF Ms rest, of "''s1''" "Resolved ()"] Ms rest
  show ?thesis by (simp add: numeral_2_eq_2)
qed

text \<open>
  C4 as stated fails. The log holds 200 messages; the three of the room \<open>quiet\<close> are the
  oldest. A request for the history of \<open>quiet\<close> with limit 50 scans the 100 newest
  documents and answers with the empty page.
\<close>

theorem history_sparse_room_counterexample:
  "length (chatMessages old_quiet) = 200
   \<and> room_entries ''quiet'' (chronological (chatMessages old_quiet))
       = [entry_at ''quiet'' 0, entry_at ''quiet'' 1, entry_at ''quiet'' 2]
   \<and> messages_history ''s1'' (Some (first_page ''quiet'' 50)) (Resolved ()) (Resolved ())
       old_quiet
       = (old_quiet,
          [Store (MessagesQuery 100 None) True,
           SocketEmit ''s1'' (MessagesHistory []),
           Console (LogHistory 0 ''quiet'')])"
proof -
  have C: "chronological (chatMessages old_quiet)
             = map (entry_at ''quiet'') [0..<3] @ map (entry_at ''public-hub'') [3..<200]"
    by (simp add: old_quiet_def chronological_spans del: upt_rec_numeral)
  have len: "length (chatMessages old_quiet) = 200"
    by (simp add: old_quiet_def span_def del: upt_rec_numeral)
  have "limitedMessages (chatMessages old_quiet) ''quiet'' 50 None = []"
    unfolding limitedMessages_window C
    by (simp add: room_entries_span_drop del: upt_rec_numeral)
  then have "messages_history ''s1'' (Some (first_page ''quiet'' 50)) (Resolved ())
               (Resolved ()) old_quiet
             = (old_quiet,
                [Store (MessagesQuery 100 None) True,
                 SocketEmit ''s1'' (MessagesHistory []),
                 Console (LogHistory 0 ''quiet'')])"
    by (simp add: messages_history_def history_cursor_def first_page_def Let_def)
  moreover have "room_entries ''quiet'' (chronological (chatMessages old_quiet))
                   = map (entry_at ''quiet'') [0..<3]"
    unfolding C by (simp add: room_entries_append room_entries_span del: upt_rec_numeral)
  moreover have "[0..<3] = [0, 1, 2::nat]"
    by (simp add: upt_rec)
  ultimately show ?thesis using len by simp
qed

text \<open>
  C4, amended. With 200 messages in the log, three of them of the room, a
  \<^verbatim>\<open>messages:history\<close> request for the room with limit 50 and no cursor, the store
  answering the query, emits to the requester exactly those of the three that are among
  the 100 newest documents of the log, oldest first, and no error.
\<close>

theorem history_sparse_room:
  assumes "length (chronological (chatMessages s)) = 200"
      and "length (room_entries room (chronological (chatMessages s))) = 3"
  shows "messages_history sid (Some (first_page room 50)) get_answer (Resolved ()) s
         = (s, [Store (MessagesQuery 100 None) True,
                SocketEmit sid
                  (MessagesHistory
                     (map history_entry
                        (room_entries room (drop 100 (chronological (chatMessages s)))))),
                Console
                  (LogHistory
                     (length (room_entries room (drop 100 (chronological (chatMessages s)))))
                     room)])"
proof -
  let ?C = "chronological (chatMessages s)"
  from room_entries_take_drop [of room ?C 100] assms(2)
  have "length (room_entries room (drop 100 ?C)) \<le> 50" by simp
  with assms(1)
  have "limitedMessages (chatMessages s) room 50 None
          = map history_entry (room_entries room (drop 100 ?C))"
    by (simp add: limitedMessages_window Let_def)
  then show ?thesis
    by (simp add: messages_history_def history_cursor_def first_page_def Let_def)
qed

text \<open>
  C4 amended, at an input: 200 messages, the three of \<open>quiet\<close> the newest. The page is
  these three, oldest first.
\<close>

theorem history_sparse_room_witness:
  "length (chronological (chatMessages new_quiet)) = 200
   \<and> length (room_entries ''quiet'' (chronological (chatMessages new_quiet))) = 3
   \<and> messages_history ''s1'' (Some (first_page ''quiet'' 50)) (Resolved ()) (Resolved ())
       new_quiet
       = (new_quiet,
          [Store (MessagesQuery 100 None) True,
           SocketEmit ''s1''
             (MessagesHistory
                [history_entry (entry_at ''quiet'' 197), history_entry (entry_at ''quiet'' 198),
                 history_entry (entry_at ''quiet'' 199)]),
           Console (LogHistory 3 ''quiet'')])"
proof -
  have C: "chronological (chatMessages new_quiet)
             = map (entry_at ''public-hub'') [0..<197] @ map (entry_at ''quiet'') [197..<200]"
    by (simp add: new_quiet_def chronological_spans del: upt_rec_numeral)
  have len: "length (chronological (chatMessages new_quiet)) = 200"
    unfolding C by (simp del: upt_rec_numeral)
  have three: "length (room_entries ''quiet'' (chronological (chatMessages new_quiet))) = 3"
    unfolding C
    by (simp add: room_entries_append room_entries_span del: upt_rec_numeral)
  have window: "room_entries ''quiet'' (drop 100 (chronological (chatMessages new_quiet)))
                  = map (entry_at ''quiet'') [197..<200]"
    unfolding C
    by (simp add: room_entries_append room_entries_span room_entries_span_drop
             del: upt_rec_numeral)
  have upt: "[197..<200] = [197, 198, 199::nat]"
    by (simp add: upt_rec)
  from history_sparse_room [OF len three, of "''s1''" "Resolved ()"] len three window upt
  show ?thesis by simp
qed

text \<open>
  C7 as stated fails. The log holds the document \<open>d1\<close> and no document \<open>gone\<close>. A
  request with the cursor \<open>gone\<close> is answered with the first page, and the trace has no
  error event.
\<close>

theorem history_missing_cursor_counterexample:
  "map_get (chatMessages chatting) ''gone'' = None
   \<and> messages_history ''s1''
       (Some \<lparr>history_roomId = None, history_limit = None,
              history_lastMessageId = Some ''gone''\<rparr>)
       (Resolved ()) (Resolved ()) chatting
       = (chatting,
          [Store (MessagesGet ''gone'') True,
           Store (MessagesQuery 100 None) True,
           SocketEmit ''s1''
             (MessagesHistory [hello_doc\<lparr>firebaseId := Some ''d1'', timestamp := 12\<rparr>]),
           Console (LogHistory 1 ''public-hub'')])
   \<and> \<not> list_ex is_error
         (snd (messages_history ''s1''
                 (Some \<lparr>history_roomId = None, history_limit = None,
                        history_lastMessageId = Some ''gone''\<rparr>)
                 (Resolved ()) (Resolved ()) chatting))"
  by (simp add: messages_history_def history_cursor_def limitedMessages_def startAfter_def
        orderBy_createdAt_desc_def chronological_def dated_def history_entry_def chatting_def
        hello_doc_def public_hub_def Let_def)

text \<open>
  C7, amended. A \<^verbatim>\<open>messages:history\<close> request whose cursor names a document that is not
  in the log is served as the same request without a cursor: after the lookup of the
  cursor the handler does what it does without one, and when the store answers the query
  the trace has no error event.
\<close>

theorem history_missing_cursor_ignored:
  assumes "map_get (chatMessages s) c = None" and "c \<noteq> []"
  shows "snd (messages_history sid (Some (d\<lparr>history_lastMessageId := Some c\<rparr>))
                (Resolved ()) query_answer s)
           = Store (MessagesGet c) True
             # snd (messages_history sid (Some (d\<lparr>history_lastMessageId := None\<rparr>))
                      get_answer query_answer s)
       \<and> \<not> list_ex is_error
             (snd (messages_history sid (Some (d\<lparr>history_lastMessageId := Some c\<rparr>))
                     (Resolved ()) (Resolved ()) s))"
  using assms
  by (cases query_answer) (simp_all add: messages_history_def history_cursor_def Let_def)

text \<open>
  C7 amended, at an input: the log holds \<open>d1\<close> alone; a request with the absent cursor
  \<open>gone\<close> has, after the lookup, the trace of the request without a cursor, and no error
  event.
\<close>

theorem history_missing_cursor_ignored_witness:
  "map_get (chatMessages chatting) ''gone'' = None
   \<and> ''gone'' \<noteq> []
   \<and> snd (messages_history ''s1''
            (Some ((first_page ''public-hub'' 50)\<lparr>history_lastMessageId := Some ''gone''\<rparr>))
            (Resolved ()) (Resolved ()) chatting)
       = Store (MessagesGet ''gone'') True
         # snd (messages_history ''s1''
                  (Some ((first_page ''public-hub'' 50)\<lparr>history_lastMessageId := None\<rparr>))
                  Rejected (Resolved ()) chatting)
   \<and> \<not> list_ex is_error
         (snd (messages_history ''s1''
                 (Some ((first_page ''public-hub'' 50)\<lparr>history_lastMessageId := Some ''gone''\<rparr>))
                 (Resolved ()) (Resolved ()) chatting))"
proof -
  have absent: "map_get (chatMessages chatting) ''gone'' = None"
    by (simp add: chatting_def)
  have named: "''gone'' \<noteq> []"
    by simp
  from history_missing_cursor_ignored [OF absent named,
         of "''s1''" "first_page ''public-hub'' 50" "Resolved ()" Rejected] absent named
  show ?thesis by blast
qed

end
